theory Spec2Isabelle
  imports Main "HOL-Library.Word"
begin

section \<open>JavaScript values\<close>

text \<open>
  The values a caller can hand to the \<open>podcast\<close> property or store in a field of the
  record. Strings are byte lists (the UTF-8 text of the source file). A number is an
  integer from \<open>-2^53\<close> to \<open>2^53 - 1\<close> (each of them is a JavaScript number and prints
  in decimal digits) or \<open>NaN\<close>; fractions and larger numbers are not represented. An
  array is the list of its elements. A plain object is the association list of its own
  data properties: the first binding of a key is the property's value, and a property
  holds a value of this type, so never a function.
\<close>

datatype jsval =
    JUndefined
  | JNull
  | JBool bool
  | JNum "54 word"
  | JNaN
  | JStr string
  | JArr "jsval list"
  | JObj "(string \<times> jsval) list"

datatype error = TypeError

text \<open>ToBoolean: the falsy values are undefined, null, false, 0, NaN and the empty string.\<close>

fun truthy :: "jsval \<Rightarrow> bool" where
  "truthy JUndefined = False"
| "truthy JNull = False"
| "truthy (JBool b) = b"
| "truthy (JNum n) = (n \<noteq> 0)"
| "truthy JNaN = False"
| "truthy (JStr s) = (s \<noteq> [])"
| "truthy (JArr xs) = True"
| "truthy (JObj fs) = True"

fun nullish :: "jsval \<Rightarrow> bool" where
  "nullish JUndefined = True"
| "nullish JNull = True"
| "nullish v = False"

text \<open>\<open>Array.isArray\<close>.\<close>

fun isArray :: "jsval \<Rightarrow> bool" where
  "isArray (JArr xs) = True"
| "isArray v = False"

text \<open>\<open>typeof v === 'object' && v !== null\<close>: arrays and plain objects.\<close>

fun is_object :: "jsval \<Rightarrow> bool" where
  "is_object (JArr xs) = True"
| "is_object (JObj fs) = True"
| "is_object v = False"

text \<open>The operator \<open>a || b\<close> on values (both operands here have no effects).\<close>

definition js_or :: "jsval \<Rightarrow> jsval \<Rightarrow> jsval" where
  "js_or a b = (if truthy a then a else b)"

text \<open>A step that may raise, followed by the rest of the computation.\<close>

definition bind_res :: "error + 'a \<Rightarrow> ('a \<Rightarrow> error + 'b) \<Rightarrow> error + 'b" where
  "bind_res r k = (case r of Inl e \<Rightarrow> Inl e | Inr x \<Rightarrow> k x)"

text \<open>The results of the steps \<open>rs\<close>, taken from left to right up to the first that raises.\<close>

fun collect :: "(error + 'a) list \<Rightarrow> error + 'a list" where
  "collect [] = Inr []"
| "collect (r # rs) = bind_res r (\<lambda>x. bind_res (collect rs) (\<lambda>xs. Inr (x # xs)))"

text \<open>Decimal digits of a number, as \<open>Number.prototype.toString\<close> prints an integer.\<close>

fun show_nat :: "nat \<Rightarrow> string" where
  "show_nat n =
     (if n < 10 then [''0123456789'' ! n]
      else show_nat (n div 10) @ [''0123456789'' ! (n mod 10)])"

declare show_nat.simps [simp del]

definition show_int :: "int \<Rightarrow> string" where
  "show_int i = (if i < 0 then ''-'' @ show_nat (nat (- i)) else show_nat (nat i))"

fun join_strings :: "string \<Rightarrow> string list \<Rightarrow> string" where
  "join_strings sep [] = []"
| "join_strings sep [x] = x"
| "join_strings sep (x # y # ys) = x @ sep @ join_strings sep (y # ys)"

text \<open>
  ToString, as a template literal applies it to an interpolated value. An array prints
  its elements joined by a comma, an undefined or null element as the empty string. A
  plain object is converted by its \<open>toString\<close> method: the inherited one gives
  \<open>[object Object]\<close>; an own property \<open>toString\<close> hides it and is not callable, and
  then neither \<open>valueOf\<close> (own and not callable, or inherited and returning the object)
  gives a primitive, so the conversion raises a TypeError.
\<close>

fun ToString :: "jsval \<Rightarrow> error + string" where
  "ToString JUndefined = Inr ''undefined''"
| "ToString JNull = Inr ''null''"
| "ToString (JBool b) = Inr (if b then ''true'' else ''false'')"
| "ToString (JNum n) = Inr (show_int (sint n))"
| "ToString JNaN = Inr ''NaN''"
| "ToString (JStr s) = Inr s"
| "ToString (JArr xs) =
     bind_res (collect (map (\<lambda>x. if nullish x then Inr [] else ToString x) xs))
       (\<lambda>ss. Inr (join_strings '','' ss))"
| "ToString (JObj fs) =
     (case map_of fs ''toString'' of
        None \<Rightarrow> Inr ''[object Object]''
      | Some m \<Rightarrow> Inl TypeError)"

text \<open>\<open>Array.prototype.join(sep)\<close> on the elements \<open>xs\<close>.\<close>

definition array_join :: "jsval list \<Rightarrow> string \<Rightarrow> error + string" where
  "array_join xs sep =
     bind_res (collect (map (\<lambda>x. if nullish x then Inr [] else ToString x) xs))
       (\<lambda>ss. Inr (join_strings sep ss))"

text \<open>
  Reading a property \<open>v.k\<close> of a value that is neither undefined nor null. The names
  read by the component (title, image, genres, seasons, updated) are own properties of a
  plain object or missing; no array, string, number or boolean has them, so the read
  gives undefined there. On undefined and null the read raises (see \<open>render_from\<close>).
\<close>

fun get_prop :: "jsval \<Rightarrow> string \<Rightarrow> jsval" where
  "get_prop (JObj fs) k = (case map_of fs k of Some v \<Rightarrow> v | None \<Rightarrow> JUndefined)"
| "get_prop v k = JUndefined"

text \<open>ASCII lower case, as the page applies it to the names of attributes and tags.\<close>

definition ascii_lower :: "char \<Rightarrow> char" where
  "ascii_lower c =
     (case map_of (zip ''ABCDEFGHIJKLMNOPQRSTUVWXYZ'' ''abcdefghijklmnopqrstuvwxyz'') c of
        Some l \<Rightarrow> l
      | None \<Rightarrow> c)"

section \<open>The element\<close>

record custom_event =
  event_type :: string
  detail :: jsval
  bubbles :: bool
  composed :: bool

text \<open>
  The state of one \<open>podcast-card\<close> element: the field \<open>_podcast\<close>, the element's
  attributes, the markup last assigned to \<open>shadowRoot.innerHTML\<close>, the number of calls
  of \<open>render\<close> made so far and the events dispatched on the element so far.
\<close>

record podcast_card =
  priv_podcast :: jsval
  attributes :: "string \<rightharpoonup> string"
  shadowRoot_innerHTML :: string
  render_calls :: nat
  dispatched :: "custom_event list"

text \<open>
  How a method ends: it returns, or an exception leaves it. Both carry the state of the
  element at that moment.
\<close>

datatype outcome = Returned podcast_card | Threw error podcast_card

fun state_of :: "outcome \<Rightarrow> podcast_card" where
  "state_of (Returned s) = s"
| "state_of (Threw e s) = s"

text \<open>The constructor, for an element that carries the attributes \<open>as\<close>.\<close>

definition PodcastCard_constructor :: "(string \<rightharpoonup> string) \<Rightarrow> podcast_card" where
  "PodcastCard_constructor as =
     \<lparr>priv_podcast = JNull, attributes = as, shadowRoot_innerHTML = [],
      render_calls = 0, dispatched = []\<rparr>"

definition observedAttributes :: "string list" where
  "observedAttributes =
     [''title'', ''image'', ''description'', ''genres'', ''seasons'', ''updated'']"

text \<open>\<open>getAttribute\<close>: the attribute's string, or null when the element has none.\<close>

definition getAttribute :: "podcast_card \<Rightarrow> string \<Rightarrow> jsval" where
  "getAttribute s name = (case attributes s name of None \<Rightarrow> JNull | Some v \<Rightarrow> JStr v)"

definition attributesToObject :: "podcast_card \<Rightarrow> jsval" where
  "attributesToObject s =
     JObj [(''title'', getAttribute s ''title''),
           (''image'', getAttribute s ''image''),
           (''description'', getAttribute s ''description''),
           (''genres'', getAttribute s ''genres''),
           (''seasons'', getAttribute s ''seasons''),
           (''updated'', getAttribute s ''updated'')]"

text \<open>The getter of the property \<open>podcast\<close>.\<close>

definition get_podcast :: "podcast_card \<Rightarrow> jsval" where
  "get_podcast s = priv_podcast s"

text \<open>
  The click listener of the shadow root: it dispatches one \<open>podcast-selected\<close> event
  on the element.
\<close>

definition click :: "podcast_card \<Rightarrow> podcast_card" where
  "click s =
     s\<lparr>dispatched := dispatched s @
        [\<lparr>event_type = ''podcast-selected'',
          detail = JObj [(''podcast'', js_or (priv_podcast s) (attributesToObject s))],
          bubbles = True,
          composed = True\<rparr>]\<rparr>"

section \<open>Rendering\<close>

definition nl :: string where
  "nl = [CHR 0x0A]"

text \<open>The text of the lines \<open>ls\<close>, each ended by a line feed.\<close>

definition lines_text :: "string list \<Rightarrow> string" where
  "lines_text ls = concat (map (\<lambda>l. l @ nl) ls)"

text \<open>The em dash of the source, U+2014, in UTF-8.\<close>

definition em_dash :: string where
  "em_dash = [CHR 0xE2, CHR 0x80, CHR 0x94]"

text \<open>The style rules of the card, the lines between \<open><style>\<close> and \<open></style>\<close>.\<close>

definition card_css :: string where
  "card_css = lines_text [
     ''        :host {'',
     ''          display: block;'',
     ''          max-width: 300px;'',
     ''          margin: 0 auto;'',
     ''        }'',
     ''        .card {'',
     ''          display: flex;'',
     ''          flex-direction: column;'',
     ''          border-radius: 12px;'',
     ''          box-shadow: 0 2px 6px rgba(0,0,0,0.1);'',
     ''          overflow: hidden;'',
     ''          cursor: pointer;'',
     ''          transition: transform 0.2s ease;'',
     ''          background: #fff;'',
     ''        }'',
     ''        .card:hover {'',
     ''          transform: scale(1.02);'',
     ''        }'',
     ''        img {'',
     ''          width: 100%;'',
     ''          aspect-ratio: 1/1;'',
     ''          object-fit: cover;'',
     ''        }'',
     ''        .content {'',
     ''          padding: 1rem;'',
     ''          display: flex;'',
     ''          flex-direction: column;'',
     ''          gap: .25rem;'',
     ''        }'',
     ''        h3 {'',
     ''          margin: 0;'',
     ''          font-size: 1.1rem;'',
     ''          font-weight: 600;'',
     ''        }'',
     ''        .meta {'',
     ''          font-size: 0.85rem;'',
     ''          color: #555;'',
     ''        }'',
     ''        @media (min-width: 600px) {'',
     ''          :host {'',
     ''            max-width: 250px;'',
     ''          }'',
     ''        }'']"

definition card_style :: string where
  "card_style = ''      <style>'' @ nl @ card_css @ ''      </style>'' @ nl"

text \<open>
  The text of the template literal of \<open>render\<close> for the strings it interpolates. The
  genres line is present when \<open>genres\<close> is truthy (\<open>Some\<close> of its string), the date
  line when \<open>updated\<close> is not empty.
\<close>

definition card_text :: "string \<Rightarrow> string \<Rightarrow> string option \<Rightarrow> string \<Rightarrow> string \<Rightarrow> string" where
  \<open>card_text title img genres seasons updated =
     nl @ card_style @
     ''      <div class="card">'' @ nl @
     ''        <img src="'' @ img @ ''" alt="'' @ title @ ''">'' @ nl @
     ''        <div class="content">'' @ nl @
     ''          <h3>'' @ title @ ''</h3>'' @ nl @
     ''          '' @
       (case genres of
          Some g \<Rightarrow> ''<div class="meta">Genres: '' @ g @ ''</div>''
        | None \<Rightarrow> []) @ nl @
     ''          <div class="meta">Seasons: '' @ seasons @ ''</div>'' @ nl @
     ''          '' @
       (if updated \<noteq> [] then ''<div class="meta">Last updated: '' @ updated @ ''</div>''
        else []) @ nl @
     ''        </div>'' @ nl @
     ''      </div>'' @ nl @
     ''    ''\<close>

text \<open>
  The template literal for the constants of \<open>render\<close>: each interpolated value is
  converted to a string, in the order of the template (the image, the title, the genres
  when truthy, the seasons); a conversion that raises ends the evaluation.
\<close>

definition card_template ::
  "jsval \<Rightarrow> jsval \<Rightarrow> jsval \<Rightarrow> jsval \<Rightarrow> string \<Rightarrow> error + string" where
  "card_template title img genres seasons updated =
     bind_res (ToString img) (\<lambda>img_text.
     bind_res (ToString title) (\<lambda>title_text.
     bind_res (if truthy genres then bind_res (ToString genres) (\<lambda>g. Inr (Some g))
               else Inr None) (\<lambda>genres_text.
     bind_res (ToString seasons) (\<lambda>seasons_text.
     Inr (card_text title_text img_text genres_text seasons_text updated)))))"

text \<open>The constants \<open>title\<close>, \<open>image\<close>, \<open>genres\<close>, \<open>seasons\<close> and \<open>updated\<close> of \<open>render\<close>.\<close>

definition render_title :: "jsval \<Rightarrow> jsval" where
  "render_title data = js_or (get_prop data ''title'') (JStr ''Untitled Podcast'')"

definition render_image :: "jsval \<Rightarrow> jsval" where
  "render_image data = js_or (get_prop data ''image'') (JStr ''placeholder.jpg'')"

definition render_genres :: "jsval \<Rightarrow> error + jsval" where
  "render_genres data =
     (case get_prop data ''genres'' of
        JArr xs \<Rightarrow> bind_res (array_join xs '', '') (\<lambda>j. Inr (JStr j))
      | g \<Rightarrow> Inr (js_or g (JStr [])))"

definition render_seasons :: "jsval \<Rightarrow> jsval" where
  "render_seasons data = js_or (get_prop data ''seasons'') (JStr em_dash)"

text \<open>
  \<open>toLocaleDateString\<close> is the parameter: the string that
  \<open>new Date(v).toLocaleDateString(undefined, {year, month, day})\<close> gives for the value
  \<open>v\<close> in the page's locale and time zone. \<open>new Date(v)\<close> first converts an array or
  object \<open>v\<close> to a primitive, and raises on the values on which that conversion raises;
  they are the values on which \<open>ToString\<close> raises.
\<close>

definition render_updated :: "(jsval \<Rightarrow> string) \<Rightarrow> jsval \<Rightarrow> error + string" where
  "render_updated toLocaleDateString data =
     (if truthy (get_prop data ''updated'')
      then bind_res (ToString (get_prop data ''updated''))
             (\<lambda>t. Inr (toLocaleDateString (get_prop data ''updated'')))
      else Inr [])"

text \<open>The markup that \<open>render\<close> computes from the data, when nothing raises.\<close>

definition render_markup :: "(jsval \<Rightarrow> string) \<Rightarrow> jsval \<Rightarrow> error + string" where
  "render_markup toLocaleDateString data =
     bind_res (render_genres data) (\<lambda>genres.
     bind_res (render_updated toLocaleDateString data) (\<lambda>updated.
     card_template (render_title data) (render_image data) genres (render_seasons data)
       updated))"

text \<open>
  \<open>render\<close> after its first line, for the data \<open>data\<close>: the first read, \<open>data.title\<close>,
  raises a TypeError on undefined or null data; the markup is computed and then assigned
  to \<open>shadowRoot.innerHTML\<close>. An exception leaves the markup as it was.
\<close>

definition render_from :: "(jsval \<Rightarrow> string) \<Rightarrow> jsval \<Rightarrow> podcast_card \<Rightarrow> outcome" where
  "render_from toLocaleDateString data s =
     (let s1 = s\<lparr>render_calls := Suc (render_calls s)\<rparr>
      in if nullish data then Threw TypeError s1
         else (case render_markup toLocaleDateString data of
                 Inl e \<Rightarrow> Threw e s1
               | Inr m \<Rightarrow> Returned (s1\<lparr>shadowRoot_innerHTML := m\<rparr>)))"

text \<open>
  \<open>render\<close>: the data is the field \<open>_podcast\<close> when it is truthy, else the object of
  the attributes.
\<close>

definition render :: "(jsval \<Rightarrow> string) \<Rightarrow> podcast_card \<Rightarrow> outcome" where
  "render toLocaleDateString s =
     render_from toLocaleDateString (js_or (priv_podcast s) (attributesToObject s)) s"

definition connectedCallback :: "(jsval \<Rightarrow> string) \<Rightarrow> podcast_card \<Rightarrow> outcome" where
  "connectedCallback toLocaleDateString s = render toLocaleDateString s"

definition attributeChangedCallback ::
  "(jsval \<Rightarrow> string) \<Rightarrow> string \<Rightarrow> string option \<Rightarrow> string option \<Rightarrow> podcast_card
     \<Rightarrow> outcome" where
  "attributeChangedCallback toLocaleDateString name oldValue newValue s =
     (if oldValue \<noteq> newValue then render toLocaleDateString s else Returned s)"

text \<open>The setter of the property \<open>podcast\<close>.\<close>

definition set_podcast :: "(jsval \<Rightarrow> string) \<Rightarrow> jsval \<Rightarrow> podcast_card \<Rightarrow> outcome" where
  "set_podcast toLocaleDateString data s =
     render toLocaleDateString (s\<lparr>priv_podcast := data\<rparr>)"

text \<open>
  What the page does on \<open>el.setAttribute(name, v)\<close>: the name is put in lower case, the
  attribute is stored and, for an observed attribute, \<open>attributeChangedCallback\<close> is
  called with the previous value (null when there was none) and the new one, also when
  the two are equal. An exception of the callback is reported by the page and does not
  reach the caller of \<open>setAttribute\<close>.
\<close>

definition setAttribute ::
  "(jsval \<Rightarrow> string) \<Rightarrow> string \<Rightarrow> string \<Rightarrow> podcast_card \<Rightarrow> podcast_card" where
  "setAttribute toLocaleDateString name v s =
     (let lname = map ascii_lower name;
          oldValue = attributes s lname;
          s' = s\<lparr>attributes := (attributes s)(lname \<mapsto> v)\<rparr>
      in if lname \<in> set observedAttributes
         then state_of (attributeChangedCallback toLocaleDateString lname oldValue (Some v) s')
         else s')"

section \<open>The attribute-only card of podcastCard.js\<close>

definition podcastCard_style :: string where
  "podcastCard_style = lines_text [
     ''      <style>'',
     ''        .card {'',
     ''          display: grid;'',
     ''          grid-template-rows: auto 1fr;'',
     ''          border-radius: 8px;'',
     ''          box-shadow: 0 2px 6px rgba(0,0,0,0.1);'',
     ''          overflow: hidden;'',
     ''          cursor: pointer;'',
     ''          transition: transform 0.2s ease;'',
     ''        }'',
     ''        .card:hover {'',
     ''          transform: scale(1.02);'',
     ''        }'',
     ''        img {'',
     ''          width: 100%;'',
     ''          height: 150px;'',
     ''          object-fit: cover;'',
     ''        }'',
     ''        .content {'',
     ''          padding: 1rem;'',
     ''        }'',
     ''        h3 {'',
     ''          margin: 0 0 .5rem;'',
     ''          font-size: 1.2rem;'',
     ''        }'',
     ''        p {'',
     ''          margin: 0;'',
     ''          font-size: 0.9rem;'',
     ''          color: #666;'',
     ''        }'',
     ''      </style>'']"

definition podcastCard_template :: "string \<Rightarrow> string \<Rightarrow> string \<Rightarrow> string" where
  \<open>podcastCard_template title img description =
     nl @ podcastCard_style @
     ''      <div class="card">'' @ nl @
     ''        <img src="'' @ img @ ''" alt="'' @ title @ ''">'' @ nl @
     ''        <div class="content">'' @ nl @
     ''          <h3>'' @ title @ ''</h3>'' @ nl @
     ''          <p>'' @ description @ ''</p>'' @ nl @
     ''        </div>'' @ nl @
     ''      </div>'' @ nl @
     ''    ''\<close>

text \<open>
  \<open>this.getAttribute(name) || d\<close>: the attribute's string when the element has the
  attribute and it is not empty, else the string \<open>d\<close>.
\<close>

definition attribute_or :: "podcast_card \<Rightarrow> string \<Rightarrow> string \<Rightarrow> string" where
  "attribute_or s name d =
     (case attributes s name of None \<Rightarrow> d | Some v \<Rightarrow> if v \<noteq> [] then v else d)"

text \<open>The constants \<open>title\<close>, \<open>image\<close> and \<open>description\<close> of its \<open>render\<close>.\<close>

definition podcastCard_title :: "podcast_card \<Rightarrow> string" where
  "podcastCard_title s = attribute_or s ''title'' ''Untitled Podcast''"

definition podcastCard_image :: "podcast_card \<Rightarrow> string" where
  "podcastCard_image s = attribute_or s ''image'' ''placeholder.jpg''"

definition podcastCard_description :: "podcast_card \<Rightarrow> string" where
  "podcastCard_description s = attribute_or s ''description'' ''No description available''"

definition podcastCard_render :: "podcast_card \<Rightarrow> podcast_card" where
  "podcastCard_render s =
     s\<lparr>shadowRoot_innerHTML :=
         podcastCard_template (podcastCard_title s) (podcastCard_image s)
           (podcastCard_description s),
       render_calls := Suc (render_calls s)\<rparr>"

section \<open>Tags and attributes of markup\<close>

text \<open>
  The tags of a markup text, as the page's HTML tokenizer finds them: text up to a
  \<open><\<close> that a letter or a slash follows, the tag's name up to white space, a slash or
  \<open>>\<close>, then attributes, each a name and, after \<open>=\<close>, a value that is double-quoted,
  single-quoted or unquoted. A quoted value ends at the next quote of its kind, whatever
  is in between. The result lists each tag's name (an end tag's with its slash) and the
  names of its attributes.
\<close>

datatype html_state =
    Data
  | TagOpen
  | TagName string
  | BeforeAttr string "string list"
  | AttrName string "string list" string
  | AfterAttrName string "string list"
  | BeforeValue string "string list"
  | ValueDQ string "string list"
  | ValueSQ string "string list"
  | ValueUQ string "string list"

definition is_ws :: "char \<Rightarrow> bool" where
  "is_ws c = (c \<in> set [CHR 0x09, CHR 0x0A, CHR 0x0C, CHR 0x0D, CHR 0x20])"

definition is_letter :: "char \<Rightarrow> bool" where
  "is_letter c = (c \<in> set ''abcdefghijklmnopqrstuvwxyzABCDEFGHIJKLMNOPQRSTUVWXYZ'')"

fun scan :: "html_state \<Rightarrow> string \<Rightarrow> (string \<times> string list) list" where
  "scan st [] = []"
| "scan Data (c # cs) = (if c = CHR ''<'' then scan TagOpen cs else scan Data cs)"
| "scan TagOpen (c # cs) =
     (if is_letter c \<or> c = CHR ''/'' then scan (TagName [c]) cs
      else if c = CHR ''<'' then scan TagOpen cs
      else scan Data cs)"
| "scan (TagName n) (c # cs) =
     (if c = CHR ''>'' then (n, []) # scan Data cs
      else if is_ws c \<or> c = CHR ''/'' then scan (BeforeAttr n []) cs
      else scan (TagName (n @ [c])) cs)"
| "scan (BeforeAttr n as) (c # cs) =
     (if c = CHR ''>'' then (n, as) # scan Data cs
      else if is_ws c \<or> c = CHR ''/'' then scan (BeforeAttr n as) cs
      else scan (AttrName n as [c]) cs)"
| "scan (AttrName n as a) (c # cs) =
     (if c = CHR ''>'' then (n, as @ [a]) # scan Data cs
      else if c = CHR ''='' then scan (BeforeValue n (as @ [a])) cs
      else if c = CHR ''/'' then scan (BeforeAttr n (as @ [a])) cs
      else if is_ws c then scan (AfterAttrName n (as @ [a])) cs
      else scan (AttrName n as (a @ [c])) cs)"
| "scan (AfterAttrName n as) (c # cs) =
     (if c = CHR ''>'' then (n, as) # scan Data cs
      else if c = CHR ''='' then scan (BeforeValue n as) cs
      else if is_ws c then scan (AfterAttrName n as) cs
      else if c = CHR ''/'' then scan (BeforeAttr n as) cs
      else scan (AttrName n as [c]) cs)"
| "scan (BeforeValue n as) (c # cs) =
     (if c = CHR ''>'' then (n, as) # scan Data cs
      else if is_ws c then scan (BeforeValue n as) cs
      else if c = CHR 0x22 then scan (ValueDQ n as) cs
      else if c = CHR 0x27 then scan (ValueSQ n as) cs
      else scan (ValueUQ n as) cs)"
| "scan (ValueDQ n as) (c # cs) =
     (if c = CHR 0x22 then scan (BeforeAttr n as) cs else scan (ValueDQ n as) cs)"
| "scan (ValueSQ n as) (c # cs) =
     (if c = CHR 0x27 then scan (BeforeAttr n as) cs else scan (ValueSQ n as) cs)"
| "scan (ValueUQ n as) (c # cs) =
     (if c = CHR ''>'' then (n, as) # scan Data cs
      else if is_ws c then scan (BeforeAttr n as) cs
      else scan (ValueUQ n as) cs)"

definition html_tags :: "string \<Rightarrow> (string \<times> string list) list" where
  "html_tags m = scan Data m"

text \<open>An event-handler attribute: its name, in lower case, starts with \<open>on\<close>.\<close>

definition is_event_handler :: "string \<Rightarrow> bool" where
  "is_event_handler a = (take 2 (map ascii_lower a) = ''on'')"

text \<open>A tag that carries script: a script element, or any tag with an event handler.\<close>

definition executable_tag :: "string \<times> string list \<Rightarrow> bool" where
  "executable_tag t = (map ascii_lower (fst t) = ''script'' \<or> list_ex is_event_handler (snd t))"

definition has_executable :: "string \<Rightarrow> bool" where
  "has_executable m = list_ex executable_tag (html_tags m)"

text \<open>
  The tags of the template itself, with the genres line (\<open>gl\<close>) and the date line
  (\<open>ul\<close>) present or not.
\<close>

definition template_tags :: "bool \<Rightarrow> bool \<Rightarrow> (string \<times> string list) list" where
  "template_tags gl ul =
     [(''style'', []), (''/style'', []), (''div'', [''class'']),
      (''img'', [''src'', ''alt'']), (''div'', [''class'']), (''h3'', []), (''/h3'', [])]
     @ (if gl then [(''div'', [''class'']), (''/div'', [])] else [])
     @ [(''div'', [''class'']), (''/div'', [])]
     @ (if ul then [(''div'', [''class'']), (''/div'', [])] else [])
     @ [(''/div'', []), (''/div'', [])]"

text \<open>The text of a conversion that did not raise has no character \<open>c\<close>.\<close>

definition free_of :: "char \<Rightarrow> error + string \<Rightarrow> bool" where
  "free_of c r = (case r of Inl e \<Rightarrow> True | Inr t \<Rightarrow> c \<notin> set t)"

section \<open>Sample states\<close>

text \<open>The record of the example: a title, two seasons, two genres and a date.\<close>

definition sample_record :: jsval where
  "sample_record =
     JObj [(''title'', JStr ''Pod A''), (''seasons'', JNum 2),
           (''genres'', JArr [JStr ''Comedy'', JStr ''News'']),
           (''updated'', JStr ''2024-01-15'')]"

text \<open>A date formatter that prints every date as the same day.\<close>

definition sample_date :: "jsval \<Rightarrow> string" where
  "sample_date v = ''Jan 15, 2024''"

text \<open>An element with both a property object and a title attribute.\<close>

definition demo_card :: podcast_card where
  "demo_card =
     \<lparr>priv_podcast = JObj [(''title'', JStr ''Pod A'')],
      attributes = [''title'' \<mapsto> ''Attr title''],
      shadowRoot_innerHTML = [], render_calls = 0, dispatched = []\<rparr>"

text \<open>A record whose genres are an object with an own property \<open>toString\<close>.\<close>

definition opaque_genres :: jsval where
  "opaque_genres = JObj [(''genres'', JObj [(''toString'', JNum 0)])]"

text \<open>A record whose image text closes the attribute and adds an event handler.\<close>

definition handler_image :: jsval where
  \<open>handler_image = JObj [(''image'', JStr ''x" onerror="alert(1)'')]\<close>

section \<open>Properties\<close>

subsection \<open>Auxiliary facts\<close>

lemma bind_res_Inl [simp]: "bind_res (Inl e) k = Inl e"
  by (simp add: bind_res_def)

lemma bind_res_Inr [simp]: "bind_res (Inr x) k = k x"
  by (simp add: bind_res_def)

lemma error_unique: "(e :: error) = TypeError"
  by (cases e) simp

lemma js_or_truthy: "truthy a \<Longrightarrow> js_or a b = a"
  by (simp add: js_or_def)

lemma js_or_falsy: "\<not> truthy a \<Longrightarrow> js_or a b = b"
  by (simp add: js_or_def)

lemma is_object_truthy: "is_object v \<Longrightarrow> truthy v"
  by (cases v) simp_all

lemma nullish_falsy: "nullish v \<Longrightarrow> \<not> truthy v"
  by (cases v) simp_all

lemma attributesToObject_priv_podcast:
  "attributesToObject (s\<lparr>priv_podcast := d\<rparr>) = attributesToObject s"
  by (simp add: attributesToObject_def getAttribute_def)

text \<open>
  The data of \<open>render\<close> is never undefined or null: a falsy \<open>_podcast\<close> is replaced by
  the object of the attributes. So the read of \<open>data.title\<close> cannot raise.
\<close>

lemma resolved_data_not_nullish:
  "\<not> nullish (js_or (priv_podcast s) (attributesToObject s))"
  by (cases "priv_podcast s") (simp_all add: js_or_def attributesToObject_def)

lemma render_from_Returned:
  "\<not> nullish d \<Longrightarrow> render_markup f d = Inr m \<Longrightarrow>
     render_from f d s =
       Returned (s\<lparr>render_calls := Suc (render_calls s), shadowRoot_innerHTML := m\<rparr>)"
  by (simp add: render_from_def Let_def)

lemma render_from_Threw:
  "render_markup f d = Inl e \<Longrightarrow>
     render_from f d s = Threw TypeError (s\<lparr>render_calls := Suc (render_calls s)\<rparr>)"
  by (simp add: render_from_def Let_def error_unique [of e])

lemma render_from_frame:
  "priv_podcast (state_of (render_from f d s)) = priv_podcast s"
  "attributes (state_of (render_from f d s)) = attributes s"
  "dispatched (state_of (render_from f d s)) = dispatched s"
  "render_calls (state_of (render_from f d s)) = Suc (render_calls s)"
  by (simp_all add: render_from_def Let_def split: sum.splits)

lemma render_from_markup:
  "shadowRoot_innerHTML (state_of (render_from f d s)) =
     (if nullish d then shadowRoot_innerHTML s
      else case render_markup f d of Inl e \<Rightarrow> shadowRoot_innerHTML s | Inr m \<Rightarrow> m)"
  by (simp add: render_from_def Let_def split: sum.splits)

lemma set_podcast_eq:
  "set_podcast f d s =
     render_from f (js_or d (attributesToObject s)) (s\<lparr>priv_podcast := d\<rparr>)"
  by (simp add: set_podcast_def render_def attributesToObject_priv_podcast)

text \<open>The values of attributes are strings, so rendering them raises nothing.\<close>

lemma getAttribute_cases: "getAttribute s k = JNull \<or> (\<exists>v. getAttribute s k = JStr v)"
  by (simp add: getAttribute_def split: option.splits)

lemma js_or_string:
  "a = JNull \<or> (\<exists>v. a = JStr v) \<Longrightarrow> \<exists>t. js_or a (JStr d) = JStr t"
  by (auto simp: js_or_def)

lemma attributes_markup_Inr: "\<exists>m. render_markup f (attributesToObject s) = Inr m"
proof -
  let ?d = "attributesToObject s"
  have t: "\<exists>t. render_title ?d = JStr t"
    unfolding render_title_def
    by (rule js_or_string) (simp add: attributesToObject_def getAttribute_cases)
  have i: "\<exists>t. render_image ?d = JStr t"
    unfolding render_image_def
    by (rule js_or_string) (simp add: attributesToObject_def getAttribute_cases)
  have se: "\<exists>t. render_seasons ?d = JStr t"
    unfolding render_seasons_def
    by (rule js_or_string) (simp add: attributesToObject_def getAttribute_cases)
  have g: "\<exists>t. render_genres ?d = Inr (JStr t)"
    using getAttribute_cases [of s "''genres''"]
    by (auto simp: render_genres_def attributesToObject_def js_or_def)
  have u: "\<exists>t. render_updated f ?d = Inr t"
    using getAttribute_cases [of s "''updated''"]
    by (auto simp: render_updated_def attributesToObject_def)
  from t i se g u show ?thesis
    by (auto simp: render_markup_def card_template_def)
qed

lemma render_markup_description:
  "render_markup f (JObj ((''description'', d) # fs)) = render_markup f (JObj fs)"
  by (simp add: render_markup_def render_title_def render_image_def render_genres_def
      render_seasons_def render_updated_def)

text \<open>The markup that was computed is the template's text for the converted values.\<close>

lemma render_markup_InrD:
  assumes "render_markup f data = Inr m"
  shows "\<exists>g u t i go se.
      render_genres data = Inr g \<and> render_updated f data = Inr u
      \<and> ToString (render_title data) = Inr t \<and> ToString (render_image data) = Inr i
      \<and> (if truthy g then \<exists>gs. ToString g = Inr gs \<and> go = Some gs else go = None)
      \<and> ToString (render_seasons data) = Inr se
      \<and> m = card_text t i go se u"
  using assms
  by (auto simp: render_markup_def card_template_def bind_res_def
      split: sum.splits if_splits)

text \<open>A conversion that raises makes the whole markup raise.\<close>

lemma card_template_genres_Inl:
  "truthy g \<Longrightarrow> ToString g = Inl e \<Longrightarrow> card_template t i g se u = Inl TypeError"
  by (simp add: card_template_def bind_res_def error_unique split: sum.splits)

subsection \<open>Tags of the template\<close>

text \<open>A text without \<open><\<close> opens no tag, and a text without a double quote stays
  inside a double-quoted value.\<close>

lemma scan_data_skip: "CHR ''<'' \<notin> set t \<Longrightarrow> scan Data (t @ r) = scan Data r"
  by (induction t) auto

lemma scan_dq_skip:
  "CHR 0x22 \<notin> set t \<Longrightarrow> scan (ValueDQ n as) (t @ r) = scan (ValueDQ n as) r"
  by (induction t) auto

lemma card_css_no_tag: "CHR ''<'' \<notin> set card_css"
  by (simp add: card_css_def lines_text_def nl_def)

lemma scan_style:
  "scan Data (card_style @ r) = (''style'', []) # (''/style'', []) # scan Data r"
  by (simp add: card_style_def nl_def is_ws_def is_letter_def scan_data_skip card_css_no_tag)

lemma card_text_tags:
  assumes "CHR ''<'' \<notin> set t" and "CHR 0x22 \<notin> set t" and "CHR 0x22 \<notin> set i"
    and "\<And>g. go = Some g \<Longrightarrow> CHR ''<'' \<notin> set g"
    and "CHR ''<'' \<notin> set se" and "CHR ''<'' \<notin> set u"
  shows "html_tags (card_text t i go se u) = template_tags (go \<noteq> None) (u \<noteq> [])"
proof (cases go)
  case None
  then show ?thesis
    using assms(1,2,3,5,6)
    by (simp add: html_tags_def card_text_def template_tags_def nl_def scan_style
        scan_data_skip scan_dq_skip is_ws_def is_letter_def)
next
  case (Some g)
  then have "CHR ''<'' \<notin> set g" by (rule assms(4))
  then show ?thesis
    using Some assms(1,2,3,5,6)
    by (simp add: html_tags_def card_text_def template_tags_def nl_def scan_style
        scan_data_skip scan_dq_skip is_ws_def is_letter_def)
qed

lemma template_tags_inert: "\<not> list_ex executable_tag (template_tags gl ul)"
  by (simp add: template_tags_def executable_tag_def is_event_handler_def ascii_lower_def)

subsection \<open>Property and attributes\<close>

text \<open>
  C1, as stated, fails: the element has a title attribute and its property has been set,
  to the empty string, which the getter returns; \<open>render\<close> takes its data from the
  attributes and not from the property.
\<close>

theorem empty_property_counterexample:
  "get_podcast (state_of (set_podcast sample_date (JStr []) demo_card)) = JStr []
   \<and> attributes (state_of (set_podcast sample_date (JStr []) demo_card)) ''title''
       = Some ''Attr title''
   \<and> set_podcast sample_date (JStr []) demo_card =
       render_from sample_date (attributesToObject demo_card)
         (demo_card\<lparr>priv_podcast := JStr []\<rparr>)
   \<and> set_podcast sample_date (JStr []) demo_card \<noteq>
       render_from sample_date (JStr []) (demo_card\<lparr>priv_podcast := JStr []\<rparr>)"
proof -
  let ?s = "demo_card\<lparr>priv_podcast := JStr []\<rparr>"
  have a: "render_markup sample_date (attributesToObject demo_card) =
      Inr (card_text ''Attr title'' ''placeholder.jpg'' None em_dash [])"
    by (simp add: render_markup_def card_template_def render_title_def render_image_def
        render_genres_def render_seasons_def render_updated_def attributesToObject_def
        getAttribute_def js_or_def demo_card_def)
  have b: "render_markup sample_date (JStr []) =
      Inr (card_text ''Untitled Podcast'' ''placeholder.jpg'' None em_dash [])"
    by (simp add: render_markup_def card_template_def render_title_def render_image_def
        render_genres_def render_seasons_def render_updated_def js_or_def)
  have c: "card_text ''Attr title'' ''placeholder.jpg'' None em_dash [] \<noteq>
      card_text ''Untitled Podcast'' ''placeholder.jpg'' None em_dash []"
    by (simp add: card_text_def)
  have e: "set_podcast sample_date (JStr []) demo_card =
      render_from sample_date (attributesToObject demo_card) ?s"
    by (simp add: set_podcast_eq js_or_def)
  have ra: "render_from sample_date (attributesToObject demo_card) ?s =
      Returned (?s\<lparr>render_calls := Suc (render_calls ?s),
                  shadowRoot_innerHTML :=
                    card_text ''Attr title'' ''placeholder.jpg'' None em_dash []\<rparr>)"
    by (rule render_from_Returned [OF _ a]) (simp add: attributesToObject_def)
  have rb: "render_from sample_date (JStr []) ?s =
      Returned (?s\<lparr>render_calls := Suc (render_calls ?s),
                  shadowRoot_innerHTML :=
                    card_text ''Untitled Podcast'' ''placeholder.jpg'' None em_dash []\<rparr>)"
    by (rule render_from_Returned [OF _ b]) simp
  have ne: "render_from sample_date (attributesToObject demo_card) ?s \<noteq>
      render_from sample_date (JStr []) ?s"
  proof
    assume "render_from sample_date (attributesToObject demo_card) ?s =
      render_from sample_date (JStr []) ?s"
    then have "shadowRoot_innerHTML
        (state_of (render_from sample_date (attributesToObject demo_card) ?s)) =
      shadowRoot_innerHTML (state_of (render_from sample_date (JStr []) ?s))"
      by simp
    then show False
      unfolding ra rb using c by simp
  qed
  have g: "get_podcast (state_of (set_podcast sample_date (JStr []) demo_card)) = JStr []"
    by (simp add: e get_podcast_def render_from_frame)
  have at: "attributes (state_of (set_podcast sample_date (JStr []) demo_card)) ''title''
      = Some ''Attr title''"
    unfolding e by (simp add: render_from_frame demo_card_def)
  show ?thesis
    using g at e ne by simp
qed

text \<open>
  C1, amended: in every state in which the property holds a truthy value (any object is
  one), \<open>render\<close> takes its data from that value whatever the attributes are: with any
  attributes \<open>as\<close> in place it is the rendering of the property value, and assigns that
  value's markup when nothing raises. The object of the attributes is rendered exactly
  when the property value is falsy (null as at the start, or undefined, false, 0, NaN or
  the empty string once set); that rendering raises nothing.
\<close>

theorem render_data_source:
  "(truthy (priv_podcast s) \<longrightarrow>
      (\<forall>as. render f (s\<lparr>attributes := as\<rparr>) =
         render_from f (priv_podcast s) (s\<lparr>attributes := as\<rparr>)))
   \<and> (\<forall>as m. truthy (priv_podcast s) \<longrightarrow> render_markup f (priv_podcast s) = Inr m \<longrightarrow>
        render f (s\<lparr>attributes := as\<rparr>) =
          Returned (s\<lparr>attributes := as, render_calls := Suc (render_calls s),
                     shadowRoot_innerHTML := m\<rparr>))
   \<and> (\<not> truthy (priv_podcast s) \<longrightarrow>
        render f s = render_from f (attributesToObject s) s
        \<and> (\<exists>m. render_markup f (attributesToObject s) = Inr m
              \<and> render f s =
                  Returned (s\<lparr>render_calls := Suc (render_calls s),
                             shadowRoot_innerHTML := m\<rparr>)))"
proof -
  have falsy: "\<not> truthy (priv_podcast s) \<Longrightarrow>
      \<exists>m. render_markup f (attributesToObject s) = Inr m
        \<and> render f s =
            Returned (s\<lparr>render_calls := Suc (render_calls s), shadowRoot_innerHTML := m\<rparr>)"
  proof -
    assume n: "\<not> truthy (priv_podcast s)"
    obtain m where m: "render_markup f (attributesToObject s) = Inr m"
      using attributes_markup_Inr by blast
    have "render f s =
        Returned (s\<lparr>render_calls := Suc (render_calls s), shadowRoot_innerHTML := m\<rparr>)"
      using n m by (simp add: render_def js_or_falsy render_from_def Let_def attributesToObject_def)
    with m show ?thesis by blast
  qed
  have truthy_m: "\<And>as m. truthy (priv_podcast s) \<Longrightarrow> render_markup f (priv_podcast s) = Inr m \<Longrightarrow>
      render f (s\<lparr>attributes := as\<rparr>) =
        Returned (s\<lparr>attributes := as, render_calls := Suc (render_calls s),
                   shadowRoot_innerHTML := m\<rparr>)"
  proof -
    fix as m
    assume t: "truthy (priv_podcast s)" and m: "render_markup f (priv_podcast s) = Inr m"
    have "\<not> nullish (priv_podcast s)" using t nullish_falsy by blast
    then show "render f (s\<lparr>attributes := as\<rparr>) =
        Returned (s\<lparr>attributes := as, render_calls := Suc (render_calls s),
                   shadowRoot_innerHTML := m\<rparr>)"
      using t m by (simp add: render_def js_or_truthy render_from_def Let_def)
  qed
  show ?thesis
    using falsy truthy_m by (simp add: render_def js_or_truthy js_or_falsy)
qed

theorem render_data_source_witness:
  "truthy (priv_podcast demo_card)
   \<and> priv_podcast demo_card = JObj [(''title'', JStr ''Pod A'')]
   \<and> render sample_date (demo_card\<lparr>attributes := [''title'' \<mapsto> ''Other'']\<rparr>) =
       render_from sample_date (priv_podcast demo_card)
         (demo_card\<lparr>attributes := [''title'' \<mapsto> ''Other'']\<rparr>)
   \<and> render_markup sample_date (priv_podcast demo_card) =
       Inr (card_text ''Pod A'' ''placeholder.jpg'' None em_dash [])
   \<and> render sample_date (demo_card\<lparr>attributes := [''title'' \<mapsto> ''Other'']\<rparr>) =
       Returned (demo_card\<lparr>attributes := [''title'' \<mapsto> ''Other''],
                  render_calls := Suc (render_calls demo_card),
                  shadowRoot_innerHTML :=
                    card_text ''Pod A'' ''placeholder.jpg'' None em_dash []\<rparr>)
   \<and> \<not> truthy (priv_podcast (PodcastCard_constructor [''title'' \<mapsto> ''Attr title'']))
   \<and> render sample_date (PodcastCard_constructor [''title'' \<mapsto> ''Attr title'']) =
       render_from sample_date
         (attributesToObject (PodcastCard_constructor [''title'' \<mapsto> ''Attr title'']))
         (PodcastCard_constructor [''title'' \<mapsto> ''Attr title''])"
proof -
  let ?c = "PodcastCard_constructor [''title'' \<mapsto> ''Attr title'']"
  have p: "priv_podcast demo_card = JObj [(''title'', JStr ''Pod A'')]"
    by (simp add: demo_card_def)
  have tr: "truthy (priv_podcast demo_card)"
    by (simp add: p)
  have m: "render_markup sample_date (priv_podcast demo_card) =
      Inr (card_text ''Pod A'' ''placeholder.jpg'' None em_dash [])"
    by (simp add: p render_markup_def card_template_def render_title_def render_image_def
        render_genres_def render_seasons_def render_updated_def js_or_def)
  have fa: "\<not> truthy (priv_podcast ?c)"
    by (simp add: PodcastCard_constructor_def)
  note T = render_data_source [of demo_card sample_date]
  note U = render_data_source [of ?c sample_date]
  have w1: "render sample_date (demo_card\<lparr>attributes := [''title'' \<mapsto> ''Other'']\<rparr>) =
       render_from sample_date (priv_podcast demo_card)
         (demo_card\<lparr>attributes := [''title'' \<mapsto> ''Other'']\<rparr>)"
    using T tr by blast
  have w2: "render sample_date (demo_card\<lparr>attributes := [''title'' \<mapsto> ''Other'']\<rparr>) =
       Returned (demo_card\<lparr>attributes := [''title'' \<mapsto> ''Other''],
                  render_calls := Suc (render_calls demo_card),
                  shadowRoot_innerHTML :=
                    card_text ''Pod A'' ''placeholder.jpg'' None em_dash []\<rparr>)"
    using T tr m by blast
  have w3: "render sample_date ?c = render_from sample_date (attributesToObject ?c) ?c"
    using U fa by blast
  show ?thesis
    using tr p w1 m w2 fa w3 by (intro conjI)
qed

text \<open>
  C10: after the property is set to a falsy value \<open>d\<close> (null, undefined, 0 and the empty
  string are such values), the setter returns, the getter returns \<open>d\<close>, and the markup
  and the payload of the click event are those of the object of the attributes. After it
  is set to a truthy value \<open>d\<close>, the getter returns \<open>d\<close>, the rendering is that of
  \<open>d\<close> (its markup when nothing raises) and the payload of the click event is \<open>d\<close>.
\<close>

theorem falsy_property_falls_back:
  "(\<not> truthy d \<longrightarrow>
      (\<exists>s' m. set_podcast f d s = Returned s'
         \<and> get_podcast s' = d
         \<and> render_markup f (attributesToObject s) = Inr m
         \<and> shadowRoot_innerHTML s' = m
         \<and> dispatched (click s') = dispatched s @
             [\<lparr>event_type = ''podcast-selected'',
               detail = JObj [(''podcast'', attributesToObject s)],
               bubbles = True, composed = True\<rparr>]))
   \<and> (truthy d \<longrightarrow>
        set_podcast f d s = render_from f d (s\<lparr>priv_podcast := d\<rparr>)
        \<and> get_podcast (state_of (set_podcast f d s)) = d
        \<and> (\<forall>m. render_markup f d = Inr m \<longrightarrow>
              (\<exists>s'. set_podcast f d s = Returned s' \<and> shadowRoot_innerHTML s' = m))
        \<and> dispatched (click (state_of (set_podcast f d s))) = dispatched s @
             [\<lparr>event_type = ''podcast-selected'',
               detail = JObj [(''podcast'', d)],
               bubbles = True, composed = True\<rparr>])
   \<and> \<not> truthy JNull \<and> \<not> truthy JUndefined \<and> \<not> truthy (JNum 0) \<and> \<not> truthy (JStr [])"
proof -
  have obj: "\<not> nullish (attributesToObject s)"
    by (simp add: attributesToObject_def)
  have falsy: "\<not> truthy d \<Longrightarrow>
      \<exists>s' m. set_podcast f d s = Returned s' \<and> get_podcast s' = d
        \<and> render_markup f (attributesToObject s) = Inr m \<and> shadowRoot_innerHTML s' = m
        \<and> dispatched (click s') = dispatched s @
             [\<lparr>event_type = ''podcast-selected'',
               detail = JObj [(''podcast'', attributesToObject s)],
               bubbles = True, composed = True\<rparr>]"
  proof -
    assume n: "\<not> truthy d"
    obtain m where m: "render_markup f (attributesToObject s) = Inr m"
      using attributes_markup_Inr by blast
    have r: "set_podcast f d s =
        Returned (s\<lparr>priv_podcast := d, render_calls := Suc (render_calls s),
                   shadowRoot_innerHTML := m\<rparr>)"
      using n m obj by (simp add: set_podcast_eq js_or_falsy render_from_def Let_def)
    show ?thesis
      unfolding r using n m
      by (simp add: get_podcast_def click_def js_or_falsy attributesToObject_def
          getAttribute_def)
  qed
  have truthy_m: "\<And>m. truthy d \<Longrightarrow> render_markup f d = Inr m \<Longrightarrow>
      \<exists>s'. set_podcast f d s = Returned s' \<and> shadowRoot_innerHTML s' = m"
  proof -
    fix m
    assume t: "truthy d" and m: "render_markup f d = Inr m"
    have "\<not> nullish d" using t nullish_falsy by blast
    then show "\<exists>s'. set_podcast f d s = Returned s' \<and> shadowRoot_innerHTML s' = m"
      using t m by (simp add: set_podcast_eq js_or_truthy render_from_def Let_def)
  qed
  have truthy_rest: "truthy d \<Longrightarrow>
      set_podcast f d s = render_from f d (s\<lparr>priv_podcast := d\<rparr>)
      \<and> get_podcast (state_of (set_podcast f d s)) = d
      \<and> dispatched (click (state_of (set_podcast f d s))) = dispatched s @
             [\<lparr>event_type = ''podcast-selected'',
               detail = JObj [(''podcast'', d)],
               bubbles = True, composed = True\<rparr>]"
    by (simp add: set_podcast_eq js_or_truthy get_podcast_def click_def render_from_frame
        attributesToObject_def getAttribute_def)
  have falsy_values:
    "\<not> truthy JNull \<and> \<not> truthy JUndefined \<and> \<not> truthy (JNum 0) \<and> \<not> truthy (JStr [])"
    by simp
  show ?thesis
    using falsy truthy_m truthy_rest falsy_values by blast
qed

theorem falsy_property_falls_back_witness:
  "\<not> truthy (JStr [])
   \<and> (\<exists>s' m. set_podcast sample_date (JStr []) demo_card = Returned s'
        \<and> get_podcast s' = JStr []
        \<and> render_markup sample_date (attributesToObject demo_card) = Inr m
        \<and> shadowRoot_innerHTML s' = m
        \<and> dispatched (click s') = dispatched demo_card @
             [\<lparr>event_type = ''podcast-selected'',
               detail = JObj [(''podcast'', attributesToObject demo_card)],
               bubbles = True, composed = True\<rparr>])
   \<and> truthy sample_record
   \<and> get_podcast (state_of (set_podcast sample_date sample_record demo_card)) = sample_record
   \<and> dispatched (click (state_of (set_podcast sample_date sample_record demo_card))) =
         dispatched demo_card @
             [\<lparr>event_type = ''podcast-selected'',
               detail = JObj [(''podcast'', sample_record)],
               bubbles = True, composed = True\<rparr>]
   \<and> dispatched demo_card = []"
proof -
  have fa: "\<not> truthy (JStr [])"
    by simp
  have tr: "truthy sample_record"
    by (simp add: sample_record_def)
  have d: "dispatched demo_card = []"
    by (simp add: demo_card_def)
  show ?thesis
    using falsy_property_falls_back [of "JStr []" sample_date demo_card]
      falsy_property_falls_back [of sample_record sample_date demo_card] fa tr d
    by blast
qed

subsection \<open>Defaults\<close>

text \<open>
  C2, as stated, fails for the description: the card of podcastCard.js, rendered with no
  description attribute, shows the text \<open>No description available\<close>; its markup is not
  the template filled with the empty description.
\<close>

theorem missing_description_counterexample:
  "attributes (PodcastCard_constructor Map.empty) ''description'' = None
   \<and> podcastCard_description (PodcastCard_constructor Map.empty) = ''No description available''
   \<and> shadowRoot_innerHTML (podcastCard_render (PodcastCard_constructor Map.empty)) \<noteq>
       podcastCard_template ''Untitled Podcast'' ''placeholder.jpg'' []"
  by (simp add: podcastCard_render_def podcastCard_template_def podcastCard_title_def
      podcastCard_image_def podcastCard_description_def attribute_or_def
      PodcastCard_constructor_def)

text \<open>
  C2, amended: for a record whose field is missing (absent or null), the markup is the
  template filled with the default of that field: \<open>Untitled Podcast\<close> for the title,
  \<open>placeholder.jpg\<close> for the image, an em dash for the season count and the empty string
  for the date. The description is not part of that markup: a record with and without a
  description render alike. The card of podcastCard.js fills its template with
  \<open>Untitled Podcast\<close>, \<open>placeholder.jpg\<close> and \<open>No description available\<close> for a
  missing title, image and description attribute.
\<close>

theorem render_defaults:
  "(nullish (get_prop data ''title'') \<longrightarrow>
      render_markup f data =
        bind_res (render_genres data) (\<lambda>genres.
        bind_res (render_updated f data) (\<lambda>updated.
        card_template (JStr ''Untitled Podcast'') (render_image data) genres
          (render_seasons data) updated)))
   \<and> (nullish (get_prop data ''image'') \<longrightarrow>
      render_markup f data =
        bind_res (render_genres data) (\<lambda>genres.
        bind_res (render_updated f data) (\<lambda>updated.
        card_template (render_title data) (JStr ''placeholder.jpg'') genres
          (render_seasons data) updated)))
   \<and> (nullish (get_prop data ''seasons'') \<longrightarrow>
      render_markup f data =
        bind_res (render_genres data) (\<lambda>genres.
        bind_res (render_updated f data) (\<lambda>updated.
        card_template (render_title data) (render_image data) genres
          (JStr em_dash) updated)))
   \<and> (nullish (get_prop data ''updated'') \<longrightarrow>
      render_markup f data =
        bind_res (render_genres data) (\<lambda>genres.
        card_template (render_title data) (render_image data) genres
          (render_seasons data) []))
   \<and> render_markup f (JObj ((''description'', d) # fs)) = render_markup f (JObj fs)
   \<and> (attributes s ''title'' = None \<longrightarrow>
      shadowRoot_innerHTML (podcastCard_render s) =
        podcastCard_template ''Untitled Podcast'' (podcastCard_image s)
          (podcastCard_description s))
   \<and> (attributes s ''image'' = None \<longrightarrow>
      shadowRoot_innerHTML (podcastCard_render s) =
        podcastCard_template (podcastCard_title s) ''placeholder.jpg''
          (podcastCard_description s))
   \<and> (attributes s ''description'' = None \<longrightarrow>
      shadowRoot_innerHTML (podcastCard_render s) =
        podcastCard_template (podcastCard_title s) (podcastCard_image s)
          ''No description available'')"
proof -
  have t: "nullish (get_prop data ''title'') \<Longrightarrow> render_title data = JStr ''Untitled Podcast''"
    by (simp add: render_title_def js_or_falsy nullish_falsy)
  have i: "nullish (get_prop data ''image'') \<Longrightarrow> render_image data = JStr ''placeholder.jpg''"
    by (simp add: render_image_def js_or_falsy nullish_falsy)
  have se: "nullish (get_prop data ''seasons'') \<Longrightarrow> render_seasons data = JStr em_dash"
    by (simp add: render_seasons_def js_or_falsy nullish_falsy)
  have u: "nullish (get_prop data ''updated'') \<Longrightarrow> render_updated f data = Inr []"
    by (simp add: render_updated_def nullish_falsy)
  have bt: "attributes s ''title'' = None \<Longrightarrow> podcastCard_title s = ''Untitled Podcast''"
    by (simp add: podcastCard_title_def attribute_or_def)
  have bi: "attributes s ''image'' = None \<Longrightarrow> podcastCard_image s = ''placeholder.jpg''"
    by (simp add: podcastCard_image_def attribute_or_def)
  have bd: "attributes s ''description'' = None \<Longrightarrow>
      podcastCard_description s = ''No description available''"
    by (simp add: podcastCard_description_def attribute_or_def)
  show ?thesis
    using t i se u bt bi bd
    by (simp add: render_markup_def render_markup_description [unfolded render_markup_def]
        podcastCard_render_def)
qed

theorem render_defaults_witness:
  "nullish (get_prop (JObj [(''title'', JNull)]) ''title'')
   \<and> nullish (get_prop (JObj [(''title'', JNull)]) ''image'')
   \<and> nullish (get_prop (JObj [(''title'', JNull)]) ''seasons'')
   \<and> nullish (get_prop (JObj [(''title'', JNull)]) ''updated'')
   \<and> render_markup sample_date (JObj [(''title'', JNull)]) =
       card_template (JStr ''Untitled Podcast'') (JStr ''placeholder.jpg'') (JStr [])
         (JStr em_dash) []
   \<and> render_markup sample_date (JObj [(''title'', JNull)]) =
       Inr (card_text ''Untitled Podcast'' ''placeholder.jpg'' None em_dash [])
   \<and> attributes (PodcastCard_constructor Map.empty) ''title'' = None
   \<and> attributes (PodcastCard_constructor Map.empty) ''image'' = None
   \<and> attributes (PodcastCard_constructor Map.empty) ''description'' = None
   \<and> shadowRoot_innerHTML (podcastCard_render (PodcastCard_constructor Map.empty)) =
       podcastCard_template ''Untitled Podcast'' ''placeholder.jpg''
         ''No description available''"
  using render_defaults [of "JObj [(''title'', JNull)]" sample_date JNull "[]"
      "PodcastCard_constructor Map.empty"]
  by (simp add: render_title_def render_image_def render_genres_def render_seasons_def
      render_updated_def js_or_def PodcastCard_constructor_def podcastCard_title_def
      podcastCard_image_def podcastCard_description_def attribute_or_def card_template_def)

subsection \<open>Genres\<close>

text \<open>
  C3: a record whose genres are the array \<open>xs\<close> and a record that agrees with it on the
  other fields and whose genres are the string \<open>j = xs.join(', ')\<close> render alike: the
  array is rendered as its elements joined by a comma and a space, the two records give
  the same markup or raise alike, and after setting either of them the element shows the
  same markup.
\<close>

theorem genres_array_renders_as_joined_string:
  assumes "get_prop d1 ''genres'' = JArr xs"
    and "array_join xs '', '' = Inr j"
    and "get_prop d2 ''genres'' = JStr j"
    and "\<forall>k \<in> {''title'', ''image'', ''seasons'', ''updated''}. get_prop d1 k = get_prop d2 k"
  shows "render_genres d1 = Inr (JStr j)
     \<and> render_markup f d1 = render_markup f d2
     \<and> shadowRoot_innerHTML (state_of (set_podcast f d1 s)) =
         shadowRoot_innerHTML (state_of (set_podcast f d2 s))
     \<and> (\<forall>m. render_markup f d1 = Inr m \<longrightarrow>
          (\<exists>s1 s2. set_podcast f d1 s = Returned s1 \<and> set_podcast f d2 s = Returned s2
             \<and> shadowRoot_innerHTML s1 = m \<and> shadowRoot_innerHTML s2 = m))"
proof -
  have o1: "truthy d1" "\<not> nullish d1" using assms(1) by (cases d1; simp)+
  have o2: "truthy d2" "\<not> nullish d2" using assms(3) by (cases d2; simp)+
  have g1: "render_genres d1 = Inr (JStr j)"
    using assms(1,2) by (simp add: render_genres_def)
  have g2: "render_genres d2 = Inr (JStr j)"
    using assms(3) by (simp add: render_genres_def js_or_def)
  have eq: "render_markup f d1 = render_markup f d2"
    using assms(4) g1 g2
    by (simp add: render_markup_def render_title_def render_image_def render_seasons_def
        render_updated_def)
  have sh: "shadowRoot_innerHTML (state_of (set_podcast f d1 s)) =
         shadowRoot_innerHTML (state_of (set_podcast f d2 s))"
    using o1 o2 eq
    by (simp add: set_podcast_eq js_or_truthy render_from_markup split: sum.splits)
  have ret: "\<And>m. render_markup f d1 = Inr m \<Longrightarrow>
      \<exists>s1 s2. set_podcast f d1 s = Returned s1 \<and> set_podcast f d2 s = Returned s2
        \<and> shadowRoot_innerHTML s1 = m \<and> shadowRoot_innerHTML s2 = m"
    using o1 o2 eq by (simp add: set_podcast_eq js_or_truthy render_from_def Let_def)
  show ?thesis
    using g1 eq sh ret by blast
qed

theorem genres_array_renders_as_joined_string_witness:
  "get_prop (JObj [(''title'', JStr ''Pod A''), (''genres'', JArr [JStr ''Comedy'', JStr ''News''])])
       ''genres'' = JArr [JStr ''Comedy'', JStr ''News'']
   \<and> array_join [JStr ''Comedy'', JStr ''News''] '', '' = Inr ''Comedy, News''
   \<and> get_prop (JObj [(''title'', JStr ''Pod A''), (''genres'', JStr ''Comedy, News'')])
       ''genres'' = JStr ''Comedy, News''
   \<and> render_genres
        (JObj [(''title'', JStr ''Pod A''), (''genres'', JArr [JStr ''Comedy'', JStr ''News''])])
       = Inr (JStr ''Comedy, News'')
   \<and> render_markup sample_date
        (JObj [(''title'', JStr ''Pod A''), (''genres'', JArr [JStr ''Comedy'', JStr ''News''])])
     = render_markup sample_date
        (JObj [(''title'', JStr ''Pod A''), (''genres'', JStr ''Comedy, News'')])"
proof -
  have a: "array_join [JStr ''Comedy'', JStr ''News''] '', '' = Inr ''Comedy, News''"
    by (simp add: array_join_def)
  show ?thesis
    using genres_array_renders_as_joined_string
      [of "JObj [(''title'', JStr ''Pod A''), (''genres'', JArr [JStr ''Comedy'', JStr ''News''])]"
          "[JStr ''Comedy'', JStr ''News'']" "''Comedy, News''"
          "JObj [(''title'', JStr ''Pod A''), (''genres'', JStr ''Comedy, News'')]"
          sample_date demo_card] a
    by simp
qed

text \<open>
  C7, as stated, fails twice. The genres value 5 is neither an array nor a string, and
  \<open>render\<close> keeps it: the markup has a genres line for it and differs from the markup
  of the empty string. And for genres that are an object with an own property
  \<open>toString\<close>, setting the record raises a TypeError and leaves the markup as it was.
\<close>

theorem genres_number_counterexample:
  "\<not> isArray (JNum 5)
   \<and> render_genres (JObj [(''genres'', JNum 5)]) = Inr (JNum 5)
   \<and> render_genres (JObj [(''genres'', JNum 5)]) \<noteq> Inr (JStr [])
   \<and> card_template (JStr ''Pod A'') (JStr ''a.jpg'') (JNum 5) (JNum 2) [] =
       Inr (card_text ''Pod A'' ''a.jpg'' (Some ''5'') ''2'' [])
   \<and> card_template (JStr ''Pod A'') (JStr ''a.jpg'') (JNum 5) (JNum 2) [] \<noteq>
       card_template (JStr ''Pod A'') (JStr ''a.jpg'') (JStr []) (JNum 2) []
   \<and> \<not> isArray (JObj [(''toString'', JNum 0)])
   \<and> set_podcast sample_date opaque_genres demo_card =
       Threw TypeError
         (demo_card\<lparr>priv_podcast := opaque_genres, render_calls := Suc 0\<rparr>)"
proof -
  have a: "card_template (JStr ''Pod A'') (JStr ''a.jpg'') (JNum 5) (JNum 2) [] =
       Inr (card_text ''Pod A'' ''a.jpg'' (Some ''5'') ''2'' [])"
    by (simp add: card_template_def show_int_def show_nat.simps)
  have b: "card_template (JStr ''Pod A'') (JStr ''a.jpg'') (JStr []) (JNum 2) [] =
       Inr (card_text ''Pod A'' ''a.jpg'' None ''2'' [])"
    by (simp add: card_template_def show_int_def show_nat.simps)
  have c: "card_text ''Pod A'' ''a.jpg'' (Some ''5'') ''2'' [] \<noteq>
      card_text ''Pod A'' ''a.jpg'' None ''2'' []"
    by (simp add: card_text_def nl_def)
  have g: "render_genres (JObj [(''genres'', JNum 5)]) = Inr (JNum 5)"
    by (simp add: render_genres_def js_or_def)
  have m: "render_markup sample_date opaque_genres = Inl TypeError"
    by (simp add: render_markup_def render_genres_def render_updated_def card_template_def
        render_title_def render_image_def render_seasons_def js_or_def opaque_genres_def)
  have t: "set_podcast sample_date opaque_genres demo_card =
       Threw TypeError
         (demo_card\<lparr>priv_podcast := opaque_genres, render_calls := Suc 0\<rparr>)"
  proof -
    have d: "js_or opaque_genres (attributesToObject demo_card) = opaque_genres"
      by (simp add: js_or_def opaque_genres_def)
    have rc: "render_calls demo_card = 0"
      by (simp add: demo_card_def)
    show ?thesis
      by (simp add: set_podcast_eq d render_from_Threw [OF m] rc)
  qed
  show ?thesis
    using a b c g t by simp
qed

text \<open>
  C7, amended: for a genres value \<open>g\<close> that is neither an array nor a string,
  \<open>render\<close> replaces it by the empty string exactly when it is falsy (undefined, null,
  false, 0, NaN) and keeps a truthy one, which the template then converts to a string;
  computing the genres raises nothing. A record with only such genres is rendered
  without an exception when \<open>g\<close> is falsy (no genres line) or its conversion gives a
  string (a genres line with that string). When the conversion of a truthy \<open>g\<close> raises
  (an object with an own property \<open>toString\<close>), setting the record raises a TypeError
  and assigns no markup.
\<close>

theorem genres_type_mismatch:
  assumes "\<not> isArray g" and "\<forall>t. g \<noteq> JStr t" and "get_prop data ''genres'' = g"
  shows "render_genres data = Inr (if truthy g then g else JStr [])
     \<and> render_markup f data =
         bind_res (render_updated f data) (\<lambda>updated.
         card_template (render_title data) (render_image data)
           (if truthy g then g else JStr []) (render_seasons data) updated)
     \<and> (\<not> truthy g \<longrightarrow>
          set_podcast f (JObj [(''genres'', g)]) s =
            Returned (s\<lparr>priv_podcast := JObj [(''genres'', g)],
                       render_calls := Suc (render_calls s),
                       shadowRoot_innerHTML :=
                         card_text ''Untitled Podcast'' ''placeholder.jpg'' None em_dash []\<rparr>))
     \<and> (\<forall>t. truthy g \<longrightarrow> ToString g = Inr t \<longrightarrow>
          set_podcast f (JObj [(''genres'', g)]) s =
            Returned (s\<lparr>priv_podcast := JObj [(''genres'', g)],
                       render_calls := Suc (render_calls s),
                       shadowRoot_innerHTML :=
                         card_text ''Untitled Podcast'' ''placeholder.jpg'' (Some t) em_dash []\<rparr>))
     \<and> (\<forall>e. truthy g \<longrightarrow> ToString g = Inl e \<longrightarrow> truthy data \<longrightarrow>
          set_podcast f data s =
            Threw TypeError (s\<lparr>priv_podcast := data, render_calls := Suc (render_calls s)\<rparr>))"
proof -
  let ?r = "JObj [(''genres'', g)]"
  have g: "\<And>d. get_prop d ''genres'' = g \<Longrightarrow>
      render_genres d = Inr (if truthy g then g else JStr [])"
    using assms(1,2) by (cases g) (simp_all add: render_genres_def js_or_def)
  have mk: "render_markup f data =
         bind_res (render_updated f data) (\<lambda>updated.
         card_template (render_title data) (render_image data)
           (if truthy g then g else JStr []) (render_seasons data) updated)"
    by (simp add: render_markup_def g [OF assms(3)])
  have only: "render_markup f ?r =
      card_template (JStr ''Untitled Podcast'') (JStr ''placeholder.jpg'')
        (if truthy g then g else JStr []) (JStr em_dash) []"
    by (simp add: render_markup_def g render_updated_def render_title_def render_image_def
        render_seasons_def js_or_def)
  have falsy: "\<not> truthy g \<Longrightarrow> render_markup f ?r =
      Inr (card_text ''Untitled Podcast'' ''placeholder.jpg'' None em_dash [])"
    by (simp add: only card_template_def)
  have conv: "\<And>t. truthy g \<Longrightarrow> ToString g = Inr t \<Longrightarrow> render_markup f ?r =
      Inr (card_text ''Untitled Podcast'' ''placeholder.jpg'' (Some t) em_dash [])"
    by (simp add: only card_template_def)
  have d: "js_or ?r (attributesToObject s) = ?r"
    by (simp add: js_or_def)
  have raise: "\<And>e. truthy g \<Longrightarrow> ToString g = Inl e \<Longrightarrow> truthy data \<Longrightarrow>
      set_podcast f data s =
        Threw TypeError (s\<lparr>priv_podcast := data, render_calls := Suc (render_calls s)\<rparr>)"
  proof -
    fix e
    assume t: "truthy g" and c: "ToString g = Inl e" and td: "truthy data"
    have "render_markup f data = Inl TypeError"
      using t c
      by (cases "render_updated f data")
        (simp_all add: mk card_template_genres_Inl error_unique)
    then show "set_podcast f data s =
        Threw TypeError (s\<lparr>priv_podcast := data, render_calls := Suc (render_calls s)\<rparr>)"
      using td by (simp add: set_podcast_eq js_or_truthy render_from_Threw)
  qed
  show ?thesis
    using g [OF assms(3)] mk raise
    by (simp add: set_podcast_eq d render_from_def Let_def falsy conv)
qed

theorem genres_type_mismatch_witness:
  "\<not> isArray (JNum 0) \<and> \<not> isArray (JObj []) \<and> \<not> isArray (JObj [(''toString'', JNum 0)])
   \<and> get_prop (JObj [(''genres'', JNum 0)]) ''genres'' = JNum 0
   \<and> get_prop (JObj [(''genres'', JObj [])]) ''genres'' = JObj []
   \<and> get_prop opaque_genres ''genres'' = JObj [(''toString'', JNum 0)]
   \<and> \<not> truthy (JNum 0) \<and> truthy (JObj [])
   \<and> ToString (JObj []) = Inr ''[object Object]''
   \<and> ToString (JObj [(''toString'', JNum 0)]) = Inl TypeError
   \<and> render_genres (JObj [(''genres'', JNum 0)]) = Inr (JStr [])
   \<and> render_genres (JObj [(''genres'', JObj [])]) = Inr (JObj [])
   \<and> set_podcast sample_date (JObj [(''genres'', JNum 0)]) demo_card =
       Returned (demo_card\<lparr>priv_podcast := JObj [(''genres'', JNum 0)],
                  render_calls := Suc (render_calls demo_card),
                  shadowRoot_innerHTML :=
                    card_text ''Untitled Podcast'' ''placeholder.jpg'' None em_dash []\<rparr>)
   \<and> set_podcast sample_date (JObj [(''genres'', JObj [])]) demo_card =
       Returned (demo_card\<lparr>priv_podcast := JObj [(''genres'', JObj [])],
                  render_calls := Suc (render_calls demo_card),
                  shadowRoot_innerHTML :=
                    card_text ''Untitled Podcast'' ''placeholder.jpg''
                      (Some ''[object Object]'') em_dash []\<rparr>)
   \<and> set_podcast sample_date opaque_genres demo_card =
       Threw TypeError
         (demo_card\<lparr>priv_podcast := opaque_genres,
            render_calls := Suc (render_calls demo_card)\<rparr>)"
proof -
  have o: "get_prop opaque_genres ''genres'' = JObj [(''toString'', JNum 0)]"
    "truthy opaque_genres"
    by (simp_all add: opaque_genres_def)
  show ?thesis
    using genres_type_mismatch [of "JNum 0" "JObj [(''genres'', JNum 0)]" sample_date demo_card]
      genres_type_mismatch [of "JObj []" "JObj [(''genres'', JObj [])]" sample_date demo_card]
      genres_type_mismatch [of "JObj [(''toString'', JNum 0)]" opaque_genres sample_date
        demo_card] o
    by simp
qed

subsection \<open>Re-rendering\<close>

text \<open>
  C4: \<open>attributeChangedCallback\<close> renders exactly when the new value differs from the
  old one: with equal values the element is left as it is, with different values it is
  one call of \<open>render\<close>. Hence setting an observed attribute to the value it has
  causes no render and leaves the element as it is, and setting it to another value
  causes one render.
\<close>

theorem attribute_change_rerenders_iff_different:
  "(oldValue = newValue \<longrightarrow> attributeChangedCallback f name oldValue newValue s = Returned s)
   \<and> (oldValue \<noteq> newValue \<longrightarrow>
        attributeChangedCallback f name oldValue newValue s = render f s
        \<and> render_calls (state_of (attributeChangedCallback f name oldValue newValue s)) =
            Suc (render_calls s))
   \<and> (name \<in> set observedAttributes \<longrightarrow>
        attributes (setAttribute f name v s) = (attributes s)(name \<mapsto> v)
        \<and> render_calls (setAttribute f name v s) =
            (if attributes s name = Some v then render_calls s else Suc (render_calls s))
        \<and> (attributes s name = Some v \<longrightarrow> setAttribute f name v s = s))"
proof -
  have low: "name \<in> set observedAttributes \<Longrightarrow> map ascii_lower name = name"
    by (auto simp: observedAttributes_def ascii_lower_def)
  have same: "attributes s name = Some v \<Longrightarrow> s\<lparr>attributes := (attributes s)(name \<mapsto> v)\<rparr> = s"
    by (simp add: fun_upd_idem)
  have cb: "oldValue \<noteq> newValue \<Longrightarrow>
      render_calls (state_of (attributeChangedCallback f name oldValue newValue s)) =
        Suc (render_calls s)"
    by (simp add: attributeChangedCallback_def render_def render_from_frame)
  have sa: "attributes (setAttribute f name v s) = (attributes s)(name \<mapsto> v)
      \<and> render_calls (setAttribute f name v s) =
          (if attributes s name = Some v then render_calls s else Suc (render_calls s))
      \<and> (attributes s name = Some v \<longrightarrow> setAttribute f name v s = s)"
    if "name \<in> set observedAttributes"
  proof (cases "attributes s name = Some v")
    case True
    then show ?thesis
      using that same
      by (simp add: setAttribute_def Let_def low attributeChangedCallback_def fun_upd_idem)
  next
    case False
    then show ?thesis
      using that
      by (simp add: setAttribute_def Let_def low attributeChangedCallback_def render_def
          render_from_frame)
  qed
  show ?thesis
    using cb sa by (simp add: attributeChangedCallback_def)
qed

theorem attribute_change_rerenders_iff_different_witness:
  "attributeChangedCallback sample_date ''title'' (Some ''a'') (Some ''a'') demo_card
     = Returned demo_card
   \<and> Some ''a'' \<noteq> Some ''b''
   \<and> attributeChangedCallback sample_date ''title'' (Some ''a'') (Some ''b'') demo_card
       = render sample_date demo_card
   \<and> render_calls (state_of
        (attributeChangedCallback sample_date ''title'' (Some ''a'') (Some ''b'') demo_card))
       = Suc (render_calls demo_card)
   \<and> ''title'' \<in> set observedAttributes
   \<and> attributes demo_card ''title'' = Some ''Attr title''
   \<and> setAttribute sample_date ''title'' ''Attr title'' demo_card = demo_card
   \<and> attributes demo_card ''title'' \<noteq> Some ''New''
   \<and> render_calls (setAttribute sample_date ''title'' ''New'' demo_card)
       = Suc (render_calls demo_card)"
proof -
  have a: "attributes demo_card ''title'' = Some ''Attr title''"
    by (simp add: demo_card_def)
  have o: "''title'' \<in> set observedAttributes"
    by (simp add: observedAttributes_def)
  show ?thesis
    using attribute_change_rerenders_iff_different
            [of "Some ''a''" "Some ''a''" sample_date "''title''" demo_card "''Attr title''"]
          attribute_change_rerenders_iff_different
            [of "Some ''a''" "Some ''b''" sample_date "''title''" demo_card "''New''"] a o
    by (simp add: render_def render_from_frame)
qed

text \<open>
  C5: rendering twice in succession with the same data leaves the same markup. When the
  first call returns, it has assigned the markup of the data, and the second call
  returns with the same markup; when the first call raises, the markup is as before and
  the second call raises too.
\<close>

theorem render_idempotent:
  "shadowRoot_innerHTML (state_of (render f (state_of (render f s)))) =
     shadowRoot_innerHTML (state_of (render f s))
   \<and> (case render f s of
        Returned s1 \<Rightarrow>
          render_markup f (js_or (priv_podcast s) (attributesToObject s)) =
            Inr (shadowRoot_innerHTML s1)
          \<and> (\<exists>s2. render f s1 = Returned s2
                \<and> shadowRoot_innerHTML s2 = shadowRoot_innerHTML s1)
      | Threw e s1 \<Rightarrow>
          shadowRoot_innerHTML s1 = shadowRoot_innerHTML s
          \<and> (\<exists>s2. render f s1 = Threw e s2))"
proof (cases "render_markup f (js_or (priv_podcast s) (attributesToObject s))")
  case (Inl e)
  then show ?thesis
    by (simp add: render_def render_from_def Let_def attributesToObject_def
        getAttribute_def resolved_data_not_nullish [unfolded attributesToObject_def getAttribute_def]
        error_unique [of e])
next
  case (Inr m)
  then show ?thesis
    by (simp add: render_def render_from_def Let_def attributesToObject_def
        getAttribute_def resolved_data_not_nullish [unfolded attributesToObject_def getAttribute_def])
qed

subsection \<open>The click event\<close>

text \<open>
  C6: a click dispatches exactly one event. Its type is \<open>podcast-selected\<close>, it bubbles
  and is composed, and its detail is \<open>{ podcast: d }\<close> for the data \<open>d\<close> that \<open>render\<close>
  renders: the property object when one is set, the object of the attributes when
  \<open>_podcast\<close> is null.
\<close>

theorem click_dispatches_one_event:
  "\<exists>e d. click s = s\<lparr>dispatched := dispatched s @ [e]\<rparr>
     \<and> event_type e = ''podcast-selected'' \<and> bubbles e \<and> composed e
     \<and> detail e = JObj [(''podcast'', d)]
     \<and> render f s = render_from f d s
     \<and> (is_object (priv_podcast s) \<longrightarrow> d = priv_podcast s)
     \<and> (priv_podcast s = JNull \<longrightarrow> d = attributesToObject s)"
proof -
  let ?d = "js_or (priv_podcast s) (attributesToObject s)"
  let ?e = "\<lparr>event_type = ''podcast-selected'', detail = JObj [(''podcast'', ?d)],
            bubbles = True, composed = True\<rparr>"
  have "click s = s\<lparr>dispatched := dispatched s @ [?e]\<rparr>"
    by (simp add: click_def)
  moreover have "render f s = render_from f ?d s"
    by (simp add: render_def)
  moreover have "is_object (priv_podcast s) \<longrightarrow> ?d = priv_podcast s"
    by (simp add: js_or_truthy is_object_truthy)
  moreover have "priv_podcast s = JNull \<longrightarrow> ?d = attributesToObject s"
    by (simp add: js_or_falsy)
  ultimately show ?thesis
    by (intro exI [of _ ?e] exI [of _ ?d]) simp
qed

theorem click_dispatches_one_event_witness:
  "is_object (priv_podcast demo_card)
   \<and> click demo_card =
       demo_card\<lparr>dispatched :=
         [\<lparr>event_type = ''podcast-selected'',
           detail = JObj [(''podcast'', JObj [(''title'', JStr ''Pod A'')])],
           bubbles = True, composed = True\<rparr>]\<rparr>
   \<and> priv_podcast (PodcastCard_constructor [''title'' \<mapsto> ''Attr title'']) = JNull
   \<and> dispatched (click (PodcastCard_constructor [''title'' \<mapsto> ''Attr title''])) =
         [\<lparr>event_type = ''podcast-selected'',
           detail = JObj [(''podcast'',
             attributesToObject (PodcastCard_constructor [''title'' \<mapsto> ''Attr title'']))],
           bubbles = True, composed = True\<rparr>]"
  using click_dispatches_one_event [of demo_card sample_date]
    click_dispatches_one_event [of "PodcastCard_constructor [''title'' \<mapsto> ''Attr title'']" sample_date]
  by (auto simp add: demo_card_def PodcastCard_constructor_def)

subsection \<open>The stored record\<close>

text \<open>
  C8: no operation of the component changes the stored record: \<open>render\<close>, the lifecycle
  callbacks, setting an attribute and the click listener leave \<open>_podcast\<close> as it is,
  whether they return or raise, the getter returns it, and the setter replaces it by
  the value it is given.
\<close>

theorem stored_record_only_replaced:
  "priv_podcast (state_of (render f s)) = priv_podcast s
   \<and> priv_podcast (state_of (connectedCallback f s)) = priv_podcast s
   \<and> priv_podcast (state_of (attributeChangedCallback f name oldValue newValue s))
       = priv_podcast s
   \<and> priv_podcast (setAttribute f name v s) = priv_podcast s
   \<and> priv_podcast (click s) = priv_podcast s
   \<and> get_podcast s = priv_podcast s
   \<and> priv_podcast (state_of (set_podcast f d s)) = d"
  by (simp add: render_def connectedCallback_def attributeChangedCallback_def
      setAttribute_def Let_def click_def get_podcast_def set_podcast_def render_from_frame)

subsection \<open>Script in the markup\<close>

text \<open>
  C9, as stated, fails: field text is interpolated as it is. The image text of the
  sample record has no \<open><\<close>; its double quote ends the \<open>src\<close> attribute, and the
  \<open>img\<close> element of the markup gets an \<open>onerror\<close> attribute, an event handler that
  the page runs when the image fails to load.
\<close>

theorem handler_image_counterexample:
  \<open>render_markup sample_date handler_image =
      Inr (card_text ''Untitled Podcast'' ''x" onerror="alert(1)'' None em_dash [])
   \<and> html_tags (card_text ''Untitled Podcast'' ''x" onerror="alert(1)'' None em_dash []) =
       [(''style'', []), (''/style'', []), (''div'', [''class'']),
        (''img'', [''src'', ''onerror'', ''alt'']), (''div'', [''class'']),
        (''h3'', []), (''/h3'', []), (''div'', [''class'']), (''/div'', []),
        (''/div'', []), (''/div'', [])]
   \<and> has_executable (card_text ''Untitled Podcast'' ''x" onerror="alert(1)'' None em_dash [])\<close>
proof -
  have m: \<open>render_markup sample_date handler_image =
      Inr (card_text ''Untitled Podcast'' ''x" onerror="alert(1)'' None em_dash [])\<close>
    by (simp add: render_markup_def card_template_def render_title_def render_image_def
        render_genres_def render_seasons_def render_updated_def js_or_def handler_image_def)
  have t: \<open>html_tags (card_text ''Untitled Podcast'' ''x" onerror="alert(1)'' None em_dash []) =
       [(''style'', []), (''/style'', []), (''div'', [''class'']),
        (''img'', [''src'', ''onerror'', ''alt'']), (''div'', [''class'']),
        (''h3'', []), (''/h3'', []), (''div'', [''class'']), (''/div'', []),
        (''/div'', []), (''/div'', [])]\<close>
    by (simp add: html_tags_def card_text_def nl_def em_dash_def scan_style is_ws_def
        is_letter_def)
  have e: \<open>has_executable (card_text ''Untitled Podcast'' ''x" onerror="alert(1)'' None em_dash [])\<close>
    unfolding has_executable_def t
    by (simp add: executable_tag_def is_event_handler_def ascii_lower_def)
  show ?thesis
    using m t e by (intro conjI)
qed

text \<open>
  C9, amended: when the markup is computed for a record whose title text has neither
  \<open><\<close> nor a double quote, whose image text has no double quote and whose genres,
  season count and date texts have no \<open><\<close>, its tags and attributes are those of the
  template and no others; so it has no script element and no event-handler attribute.
\<close>

theorem markup_script_free:
  assumes "render_markup f data = Inr m"
    and "free_of (CHR ''<'') (ToString (render_title data))"
    and "free_of (CHR 0x22) (ToString (render_title data))"
    and "free_of (CHR 0x22) (ToString (render_image data))"
    and "free_of (CHR ''<'') (bind_res (render_genres data) ToString)"
    and "free_of (CHR ''<'') (ToString (render_seasons data))"
    and "free_of (CHR ''<'') (render_updated f data)"
  shows "(\<exists>gl ul. html_tags m = template_tags gl ul) \<and> \<not> has_executable m"
proof -
  obtain g u t i go se where
    g: "render_genres data = Inr g" and u: "render_updated f data = Inr u"
    and t: "ToString (render_title data) = Inr t"
    and i: "ToString (render_image data) = Inr i"
    and go: "if truthy g then \<exists>gs. ToString g = Inr gs \<and> go = Some gs else go = None"
    and se: "ToString (render_seasons data) = Inr se"
    and m: "m = card_text t i go se u"
    using render_markup_InrD [OF assms(1)] by blast
  have t1: "CHR ''<'' \<notin> set t" and t2: "CHR 0x22 \<notin> set t"
    using assms(2,3) t by (simp_all add: free_of_def)
  have i1: "CHR 0x22 \<notin> set i"
    using assms(4) i by (simp add: free_of_def)
  have g1: "\<And>gs. go = Some gs \<Longrightarrow> CHR ''<'' \<notin> set gs"
    using assms(5) g go by (auto simp: free_of_def split: if_splits)
  have s1: "CHR ''<'' \<notin> set se"
    using assms(6) se by (simp add: free_of_def)
  have u1: "CHR ''<'' \<notin> set u"
    using assms(7) u by (simp add: free_of_def)
  have tags: "html_tags m = template_tags (go \<noteq> None) (u \<noteq> [])"
    unfolding m by (rule card_text_tags [OF t1 t2 i1 g1 s1 u1])
  then have "\<not> has_executable m"
    by (simp add: has_executable_def template_tags_inert)
  with tags show ?thesis by blast
qed

theorem markup_script_free_witness:
  "render_markup sample_date sample_record =
      Inr (card_text ''Pod A'' ''placeholder.jpg'' (Some ''Comedy, News'') ''2''
             ''Jan 15, 2024'')
   \<and> free_of (CHR ''<'') (ToString (render_title sample_record))
   \<and> free_of (CHR 0x22) (ToString (render_title sample_record))
   \<and> free_of (CHR 0x22) (ToString (render_image sample_record))
   \<and> free_of (CHR ''<'') (bind_res (render_genres sample_record) ToString)
   \<and> free_of (CHR ''<'') (ToString (render_seasons sample_record))
   \<and> free_of (CHR ''<'') (render_updated sample_date sample_record)
   \<and> (\<exists>gl ul. html_tags (card_text ''Pod A'' ''placeholder.jpg'' (Some ''Comedy, News'')
                   ''2'' ''Jan 15, 2024'') = template_tags gl ul)
   \<and> \<not> has_executable (card_text ''Pod A'' ''placeholder.jpg'' (Some ''Comedy, News'') ''2''
                          ''Jan 15, 2024'')"
proof -
  have t: "render_title sample_record = JStr ''Pod A''"
    by (simp add: sample_record_def render_title_def js_or_def)
  have i: "render_image sample_record = JStr ''placeholder.jpg''"
    by (simp add: sample_record_def render_image_def js_or_def)
  have g: "render_genres sample_record = Inr (JStr ''Comedy, News'')"
    by (simp add: sample_record_def render_genres_def array_join_def)
  have se: "render_seasons sample_record = JNum 2"
    by (simp add: sample_record_def render_seasons_def js_or_def)
  have u: "render_updated sample_date sample_record = Inr ''Jan 15, 2024''"
    by (simp add: sample_record_def render_updated_def sample_date_def)
  have m: "render_markup sample_date sample_record =
      Inr (card_text ''Pod A'' ''placeholder.jpg'' (Some ''Comedy, News'') ''2''
             ''Jan 15, 2024'')"
    by (simp add: render_markup_def card_template_def t i g se u show_int_def show_nat.simps)
  have h: "free_of (CHR ''<'') (ToString (render_title sample_record))"
    "free_of (CHR 0x22) (ToString (render_title sample_record))"
    "free_of (CHR 0x22) (ToString (render_image sample_record))"
    "free_of (CHR ''<'') (bind_res (render_genres sample_record) ToString)"
    "free_of (CHR ''<'') (ToString (render_seasons sample_record))"
    "free_of (CHR ''<'') (render_updated sample_date sample_record)"
    by (simp_all add: free_of_def t i g se u show_int_def show_nat.simps)
  show ?thesis
    using markup_script_free [OF m h] m h by (intro conjI) blast+
qed

end
